theory Spec2Isabelle
  imports Complex_Main "HOL-Library.AList"
begin

section \<open>Shelfly: pricing, settlement and cancellation of the bookstore\<close>

text \<open>
  This theory embeds the business logic of \<^verbatim>\<open>bookstore/models.py\<close> and
  \<^verbatim>\<open>bookstore/views.py\<close>.

  \<^item> Python's \<^verbatim>\<open>Decimal\<close> is modelled by \<^typ>\<open>rat\<close>: the operations used
    (sum, product, comparison, division by 100) are exact on decimals as long as the
    28 significant digits of the default decimal context are not exceeded.
  \<^item> \<^verbatim>\<open>PositiveIntegerField\<close> columns are \<^typ>\<open>nat\<close>; every subtraction on
    them is written with the guard the source (or the column's CHECK constraint) has.
  \<^item> Points in time (\<^verbatim>\<open>datetime.now()\<close>, \<^verbatim>\<open>expiry_date\<close>) are
    \<^typ>\<open>int\<close>; the clock is a parameter.
  \<^item> Text is ASCII: \<^verbatim>\<open>str.upper\<close>, \<^verbatim>\<open>str.strip\<close> and
    \<^verbatim>\<open>str.isdigit\<close> are modelled on the ASCII range.
\<close>

subsection \<open>Model instances as the pricing properties see them\<close>

text \<open>
  The properties of \<^verbatim>\<open>Cart\<close> navigate from the cart to its items, from an item
  to its book, to the customer and to the applied coupon. The records below are the
  loaded instances: a foreign key holds the row it points to.
\<close>

record book =
  book_title :: string
  book_price :: rat
  book_stock :: nat

record customer =
  customer_is_first_time_buyer :: bool

record coupon =
  coupon_code :: string
  coupon_discount_type :: string
  coupon_discount_value :: rat
  coupon_max_usage :: nat
  coupon_current_usage :: nat
  coupon_min_purchase :: rat
  coupon_expiry_date :: int
  coupon_is_active :: bool

record cart_item =
  item_book :: book
  item_quantity :: nat

record cart =
  cart_customer :: customer
  cart_applied_coupon :: "coupon option"
  cart_cartitem_set :: "cart_item list"

subsection \<open>\<^verbatim>\<open>Coupon\<close>\<close>

text \<open>\<^verbatim>\<open>Coupon.is_valid\<close>: the three checks in the order of the source; \<open>now\<close> is
  \<^verbatim>\<open>datetime.now()\<close>.\<close>

definition Coupon_is_valid :: "int \<Rightarrow> coupon \<Rightarrow> bool \<times> string" where
  "Coupon_is_valid now c =
     (if \<not> coupon_is_active c then (False, ''This coupon is inactive'')
      else if coupon_current_usage c \<ge> coupon_max_usage c
        then (False, ''Coupon usage limit reached'')
      else if now > coupon_expiry_date c then (False, ''This coupon has expired'')
      else (True, ''Valid''))"

text \<open>\<^verbatim>\<open>Coupon.calculate_discount\<close>: every type other than \<^verbatim>\<open>'fixed'\<close> takes
  the percentage branch.\<close>

definition Coupon_calculate_discount :: "coupon \<Rightarrow> rat \<Rightarrow> rat" where
  "Coupon_calculate_discount c amount =
     (if coupon_discount_type c = ''fixed'' then min (coupon_discount_value c) amount
      else (amount * coupon_discount_value c) / 100)"

subsection \<open>\<^verbatim>\<open>CartItem\<close> and \<^verbatim>\<open>Cart\<close>\<close>

definition CartItem_subtotal :: "cart_item \<Rightarrow> rat" where
  "CartItem_subtotal it = book_price (item_book it) * of_nat (item_quantity it)"

definition Cart_subtotal :: "cart \<Rightarrow> rat" where
  "Cart_subtotal c = sum_list (map CartItem_subtotal (cart_cartitem_set c))"

definition Cart_total_items :: "cart \<Rightarrow> nat" where
  "Cart_total_items c = sum_list (map item_quantity (cart_cartitem_set c))"

definition Cart_calculate_shipping :: "cart \<Rightarrow> rat" where
  "Cart_calculate_shipping c =
     (let subtotal = Cart_subtotal c;
          total_items = Cart_total_items c
      in if subtotal \<ge> 5000 then 0
         else let base_fee = 50
              in if total_items > 5
                 then let additional_fee = of_nat (total_items - 5) * 10
                      in base_fee + additional_fee
                 else base_fee)"

definition Cart_shipping_fee :: "cart \<Rightarrow> rat" where
  "Cart_shipping_fee c = Cart_calculate_shipping c"

definition Cart_coupon_discount :: "int \<Rightarrow> cart \<Rightarrow> rat" where
  "Cart_coupon_discount now c =
     (case cart_applied_coupon c of
        Some cp \<Rightarrow>
          (let (is_valid, msg) = Coupon_is_valid now cp
           in if is_valid \<and> Cart_subtotal c \<ge> coupon_min_purchase cp
              then Coupon_calculate_discount cp (Cart_subtotal c)
              else 0)
      | None \<Rightarrow> 0)"

definition Cart_order_value_discount :: "cart \<Rightarrow> rat" where
  "Cart_order_value_discount c =
     (let subtotal = Cart_subtotal c
      in if subtotal \<ge> 5000 then subtotal * (15 / 100)
         else if subtotal \<ge> 2000 then subtotal * (10 / 100)
         else if subtotal \<ge> 1000 then subtotal * (5 / 100)
         else 0)"

definition Cart_first_time_discount :: "cart \<Rightarrow> rat" where
  "Cart_first_time_discount c =
     (if customer_is_first_time_buyer (cart_customer c) then Cart_subtotal c * (15 / 100)
      else 0)"

definition Cart_total_discount :: "int \<Rightarrow> cart \<Rightarrow> rat" where
  "Cart_total_discount now c =
     Cart_coupon_discount now c + Cart_order_value_discount c + Cart_first_time_discount c"

definition Cart_total_amount :: "int \<Rightarrow> cart \<Rightarrow> rat" where
  "Cart_total_amount now c =
     Cart_subtotal c - Cart_total_discount now c + Cart_shipping_fee c"

subsection \<open>The database\<close>

text \<open>
  Tables are kept as the views use them: a table read only through a foreign key is a
  map from primary keys to rows; a table that is searched, filtered or inserted into is
  a list of rows (with the primary key in front where rows are updated by key). Writes
  are committed one by one: the views use no transaction, and they catch their own
  exceptions, so nothing rolls a write back. Rounding of decimals to two places and the
  \<^verbatim>\<open>max_digits\<close> limit on write are not modelled.
\<close>

type_synonym ident = nat

datatype order_status = Pending | Confirmed | Shipped | Delivered | Cancelled

datatype payment_method = Cash | Card

datatype payment_status = Unpaid | Paid | Failed | Refunded

record cart_row =
  cartrow_applied_coupon :: "ident option"

text \<open>\<^verbatim>\<open>Cart.customer\<close> is one-to-one, so a cart is identified by its customer.\<close>

record cartitem_row =
  cartitem_cart :: ident
  cartitem_book :: ident
  cartitem_quantity :: nat

record order_row =
  order_customer :: ident
  order_status :: order_status
  order_delivery_name :: string
  order_delivery_phone :: string
  order_delivery_address :: string
  order_delivery_notes :: "string option"
  order_shipping_fee :: rat
  order_applied_coupon :: "ident option"
  order_coupon_discount :: rat
  order_order_value_discount :: rat
  order_first_time_discount :: rat
  order_discount_code_used :: "string option"
  order_cancellation_reason :: "string option"
  order_cancelled_at :: "int option"

record orderitem_row =
  orderitem_order :: ident
  orderitem_book :: ident
  orderitem_quantity :: nat
  orderitem_unit_price :: rat
  orderitem_subtotal :: rat

record couponusage_row =
  usage_coupon :: ident
  usage_customer :: ident
  usage_order :: ident

text \<open>The transaction id \<^verbatim>\<open>f"CARD-{order.id}-{timestamp}"\<close> is kept as the pair
  it is formatted from.\<close>

record payment_row =
  payment_order :: ident
  payment_amount :: rat
  payment_method :: payment_method
  payment_status :: payment_status
  payment_transaction_id :: "(ident \<times> int) option"

record db =
  books :: "ident \<rightharpoonup> book"
  customers :: "ident \<rightharpoonup> customer"
  coupons :: "(ident \<times> coupon) list"
  carts :: "ident \<rightharpoonup> cart_row"
  cart_items :: "cartitem_row list"
  orders :: "(ident \<times> order_row) list"
  order_items :: "(ident \<times> orderitem_row) list"
  coupon_usages :: "couponusage_row list"
  payments :: "payment_row list"

datatype exn =
    ValidationError string
  | IntegrityError
  | DoesNotExist
  | MultipleObjectsReturned

text \<open>A new row gets a primary key above every key of its table.\<close>

definition fresh_id :: "(ident \<times> 'a) list \<Rightarrow> ident" where
  "fresh_id tbl = Suc (foldr max (map fst tbl) 0)"

subsection \<open>Loading a cart\<close>

definition cartitem_set :: "db \<Rightarrow> ident \<Rightarrow> cartitem_row list" where
  "cartitem_set d cust = filter (\<lambda>r. cartitem_cart r = cust) (cart_items d)"




subsection \<open>\<^verbatim>\<open>OrderItem.save\<close>\<close>

text \<open>
  \<open>pk\<close> is the primary key of the instance (\<open>None\<close> for a new one). The instance's
  \<^verbatim>\<open>unit_price\<close> and \<^verbatim>\<open>subtotal\<close> are overwritten first; a new instance then
  takes its quantity from the book's stock (saving the book) or raises; last the row is
  written.
\<close>

definition OrderItem_save :: "db \<Rightarrow> ident option \<Rightarrow> orderitem_row \<Rightarrow> exn option \<times> db" where
  "OrderItem_save d pk self =
     (case books d (orderitem_book self) of
        None \<Rightarrow> (Some DoesNotExist, d)
      | Some b \<Rightarrow>
          let self1 = self\<lparr>orderitem_unit_price := book_price b\<rparr>;
              self2 = self1\<lparr>orderitem_subtotal :=
                        orderitem_unit_price self1 * of_nat (orderitem_quantity self1)\<rparr>
          in (case pk of
                None \<Rightarrow>
                  if book_stock b \<ge> orderitem_quantity self2
                  then let d1 = d\<lparr>books := (books d)(orderitem_book self2 \<mapsto>
                                  b\<lparr>book_stock := book_stock b - orderitem_quantity self2\<rparr>)\<rparr>
                       in (None, d1\<lparr>order_items :=
                                  order_items d1 @ [(fresh_id (order_items d1), self2)]\<rparr>)
                  else (Some (ValidationError (''Insufficient stock for '' @ book_title b)), d)
              | Some k \<Rightarrow> (None, d\<lparr>order_items := AList.update k self2 (order_items d)\<rparr>)))"

subsection \<open>Creating the order (the \<^verbatim>\<open>try\<close> body of both settlement views)\<close>








text \<open>The \<^verbatim>\<open>post_save\<close> receiver of \<^verbatim>\<open>Payment\<close>.\<close>

definition update_order_status :: "db \<Rightarrow> payment_row \<Rightarrow> db" where
  "update_order_status d instance =
     (case map_of (orders d) (payment_order instance) of
        None \<Rightarrow> d
      | Some ordr \<Rightarrow>
          if payment_status instance = Paid \<and> order_status ordr = Pending
          then d\<lparr>orders := AList.update (payment_order instance)
                              (ordr\<lparr>order_status := Confirmed\<rparr>) (orders d)\<rparr>
          else d)"



subsection \<open>Requests and responses\<close>

datatype http_method = GET | POST

record request =
  req_method :: http_method
  req_POST :: "string \<rightharpoonup> string"

text \<open>\<^verbatim>\<open>request.POST.get(key, default)\<close>.\<close>

definition POST_get :: "request \<Rightarrow> string \<Rightarrow> string \<Rightarrow> string" where
  "POST_get req k dflt = (case req_POST req k of None \<Rightarrow> dflt | Some v \<Rightarrow> v)"


text \<open>The flash messages of the views; the formatted ones carry what they format.\<close>

datatype message =
    Cart_is_empty
  | Fill_in_delivery_details
  | Order_placed ident rat
  | Error_creating_order exn
  | Invalid_payment_method
  | Cannot_cancel_order order_status
  | Order_cancelled ident
  | Please_enter_a_coupon_code
  | Invalid_coupon_code
  | Coupon_error string
  | Minimum_purchase_required rat
  | Coupon_applied string rat

datatype response =
    Redirect string "message option"
  | Render string
  | Json_failure string
  | Json_exception exn
  | Json_success ident
  | Http404
  | Http405
  | Server_error exn

subsection \<open>Strings\<close>

definition isspace :: "char \<Rightarrow> bool" where
  "isspace c = (of_char c \<in> {9, 10, 11, 12, 13, 28, 29, 30, 31, 32 :: nat})"

definition strip :: "string \<Rightarrow> string" where
  "strip t = rev (dropWhile isspace (rev (dropWhile isspace t)))"



definition is_digit :: "char \<Rightarrow> bool" where
  "is_digit c = (48 \<le> (of_char c :: nat) \<and> (of_char c :: nat) \<le> 57)"

text \<open>\<^verbatim>\<open>str.isdigit\<close>: false on the empty string.\<close>

definition isdigit :: "string \<Rightarrow> bool" where
  "isdigit t = (t \<noteq> [] \<and> list_all is_digit t)"

definition digit_value :: "char \<Rightarrow> nat" where
  "digit_value c = of_char c - 48"

text \<open>
  \<^verbatim>\<open>int(text)\<close> on ASCII text: surrounding whitespace, an optional sign, then
  digits with single underscores between them; \<open>None\<close> is \<^verbatim>\<open>ValueError\<close>.
\<close>

fun digits_ok :: "string \<Rightarrow> bool" where
  "digits_ok [] = False"
| "digits_ok [c] = is_digit c"
| "digits_ok (c # c' # cs) =
     (is_digit c \<and> (if c' = CHR ''_'' then digits_ok cs else digits_ok (c' # cs)))"

definition digits_val :: "string \<Rightarrow> nat" where
  "digits_val t = foldl (\<lambda>acc c. 10 * acc + digit_value c) 0 (filter (\<lambda>c. c \<noteq> CHR ''_'') t)"

definition py_int :: "string \<Rightarrow> int option" where
  "py_int text =
     (case strip text of
        [] \<Rightarrow> None
      | c # cs \<Rightarrow>
          if c = CHR ''-'' then (if digits_ok cs then Some (- int (digits_val cs)) else None)
          else if c = CHR ''+'' then (if digits_ok cs then Some (int (digits_val cs)) else None)
          else if digits_ok (c # cs) then Some (int (digits_val (c # cs))) else None)"

subsection \<open>Card validation\<close>

definition luhn_check :: "string \<Rightarrow> bool" where
  "luhn_check num =
     (let total = foldl (\<lambda>total (i, digit).
                     let n = digit_value digit;
                         n = (if i mod 2 = 1
                              then (let n = n * 2 in if n > 9 then n - 9 else n)
                              else n)
                     in total + n) 0 (enumerate 0 (rev num))
      in total mod 10 = 0)"

definition validate_card_number :: "string \<Rightarrow> bool \<times> string" where
  "validate_card_number card_number0 =
     (let card_number = filter (\<lambda>c. c \<noteq> CHR '' '') card_number0
      in if \<not> isdigit card_number then (False, ''Card number must contain only digits'')
         else if length card_number < 13 \<or> length card_number > 19
           then (False, ''Card number must be between 13-19 digits'')
         else if \<not> luhn_check card_number
           then (False, ''Invalid card number (failed Luhn check)'')
         else (True, ''Valid''))"

text \<open>The clock of \<^verbatim>\<open>timezone.now()\<close>: the instant, and its year and month.\<close>

record clock =
  clock_now :: int
  clock_year :: int
  clock_month :: int

definition validate_expiry_date :: "clock \<Rightarrow> string \<Rightarrow> string \<Rightarrow> bool \<times> string" where
  "validate_expiry_date clk month0 year0 =
     (case (py_int month0, py_int year0) of
        (Some month, Some year1) \<Rightarrow>
          if month < 1 \<or> month > 12 then (False, ''Month must be between 01-12'')
          else let year = (if year1 < 100
                           then (clock_year clk div 100) * 100 + year1 else year1);
                   current_year = clock_year clk;
                   current_month = clock_month clk
               in if year < current_year then (False, ''Card has expired'')
                  else if year = current_year \<and> month < current_month
                    then (False, ''Card has expired'')
                  else (True, ''Valid'')
      | _ \<Rightarrow> (False, ''Invalid expiry format''))"

definition validate_cvv :: "string \<Rightarrow> bool \<times> string" where
  "validate_cvv cvv =
     (if \<not> isdigit cvv then (False, ''CVV must contain only digits'')
      else if length cvv \<notin> {3, 4} then (False, ''CVV must be 3 or 4 digits'')
      else (True, ''Valid''))"

subsection \<open>The views\<close>



text \<open>The loop of \<^verbatim>\<open>cancel_order\<close> that gives the stock back.\<close>

fun restore_stock :: "db \<Rightarrow> (ident \<times> orderitem_row) list \<Rightarrow> exn option \<times> db" where
  "restore_stock d [] = (None, d)"
| "restore_stock d ((k, order_item) # rest) =
     (case books d (orderitem_book order_item) of
        None \<Rightarrow> (Some DoesNotExist, d)
      | Some b \<Rightarrow>
          restore_stock
            (d\<lparr>books := (books d)(orderitem_book order_item \<mapsto>
                   b\<lparr>book_stock := book_stock b + orderitem_quantity order_item\<rparr>)\<rparr>) rest)"

text \<open>The block under \<^verbatim>\<open># Revert coupon usage\<close>. \<^verbatim>\<open>current_usage\<close> is a
  \<^verbatim>\<open>PositiveIntegerField\<close>: saving \<open>-1\<close> is refused by the column's constraint.\<close>

definition revert_coupon_usage :: "db \<Rightarrow> ident \<Rightarrow> order_row \<Rightarrow> exn option \<times> db" where
  "revert_coupon_usage d oid ordr =
     (case order_applied_coupon ordr of
        None \<Rightarrow> (None, d)
      | Some cid \<Rightarrow>
          (case map_of (coupons d) cid of
             None \<Rightarrow> (Some DoesNotExist, d)
           | Some cp \<Rightarrow>
               if coupon_current_usage cp = 0 then (Some IntegrityError, d)
               else (None, d\<lparr>coupons := AList.update cid
                                 (cp\<lparr>coupon_current_usage := coupon_current_usage cp - 1\<rparr>)
                                 (coupons d),
                              coupon_usages :=
                                 filter (\<lambda>u. usage_order u \<noteq> oid) (coupon_usages d)\<rparr>)))"

definition cancel_order :: "int \<Rightarrow> db \<Rightarrow> ident \<Rightarrow> ident \<Rightarrow> request \<Rightarrow> response \<times> db" where
  "cancel_order now d cust order_id req =
     (case map_of (orders d) order_id of
        None \<Rightarrow> (Http404, d)
      | Some ordr \<Rightarrow>
          if order_customer ordr \<noteq> cust then (Http404, d)
          else if order_status ordr \<notin> {Pending, Confirmed}
            then (Redirect ''order_history'' (Some (Cannot_cancel_order (order_status ordr))), d)
          else if req_method req = POST then
            let cancellation_reason = strip (POST_get req ''cancellation_reason'' [])
            in (case restore_stock d
                       (filter (\<lambda>(k, it). orderitem_order it = order_id) (order_items d)) of
                  (Some e, d1) \<Rightarrow> (Server_error e, d1)
                | (None, d1) \<Rightarrow>
                    (case revert_coupon_usage d1 order_id ordr of
                       (Some e, d2) \<Rightarrow> (Server_error e, d2)
                     | (None, d2) \<Rightarrow>
                         (Redirect ''order_history'' (Some (Order_cancelled order_id)),
                          d2\<lparr>orders := AList.update order_id
                                (ordr\<lparr>order_status := Cancelled,
                                      order_cancellation_reason :=
                                        (if cancellation_reason \<noteq> [] then Some cancellation_reason
                                         else None),
                                      order_cancelled_at := Some now\<rparr>) (orders d2)\<rparr>)))
          else (Render ''bookstore/cancel_order.html'', d))"


subsection \<open>Predicates of the statements\<close>

text \<open>An order item whose subtotal is its unit price times its quantity.\<close>

definition priced :: "orderitem_row \<Rightarrow> bool" where
  "priced row \<longleftrightarrow>
     orderitem_subtotal row = orderitem_unit_price row * of_nat (orderitem_quantity row)"



text \<open>What a list of cart rows asks of a book, what the rows of an order hold of it,
  and a book with so many copies fewer or more.\<close>

definition reserved_quantity :: "cartitem_row list \<Rightarrow> ident \<Rightarrow> nat" where
  "reserved_quantity rows b =
     sum_list (map cartitem_quantity (filter (\<lambda>r. cartitem_book r = b) rows))"

definition ordered_quantity :: "db \<Rightarrow> ident \<Rightarrow> ident \<Rightarrow> nat" where
  "ordered_quantity d oid b =
     sum_list (map (\<lambda>(k, it). orderitem_quantity it)
        (filter (\<lambda>(k, it). orderitem_order it = oid \<and> orderitem_book it = b) (order_items d)))"


definition give_stock :: "nat \<Rightarrow> book \<Rightarrow> book" where
  "give_stock n b = b\<lparr>book_stock := book_stock b + n\<rparr>"




definition flag_stage :: "db \<Rightarrow> ident \<Rightarrow> cart \<Rightarrow> db" where
  "flag_stage d cust cart =
     (if customer_is_first_time_buyer (cart_customer cart)
      then d\<lparr>customers := (customers d)(cust \<mapsto>
              (cart_customer cart)\<lparr>customer_is_first_time_buyer := False\<rparr>)\<rparr>
      else d)"


definition clear_stage :: "db \<Rightarrow> ident \<Rightarrow> cart_row \<Rightarrow> db" where
  "clear_stage d cust cr =
     d\<lparr>cart_items := filter (\<lambda>r. cartitem_cart r \<noteq> cust) (cart_items d),
       carts := (carts d)(cust \<mapsto> cr\<lparr>cartrow_applied_coupon := None\<rparr>)\<rparr>"



section \<open>Example carts\<close>

definition single_cart :: "rat \<Rightarrow> nat \<Rightarrow> cart" where
  "single_cart p n =
     \<lparr>cart_customer = \<lparr>customer_is_first_time_buyer = False\<rparr>,
      cart_applied_coupon = None,
      cart_cartitem_set =
        [\<lparr>item_book = \<lparr>book_title = ''Atlas'', book_price = p, book_stock = 10\<rparr>,
          item_quantity = n\<rparr>]\<rparr>"

definition eight_cart :: cart where
  "eight_cart =
     \<lparr>cart_customer = \<lparr>customer_is_first_time_buyer = False\<rparr>,
      cart_applied_coupon = None,
      cart_cartitem_set =
        [\<lparr>item_book = \<lparr>book_title = ''Primer'', book_price = 100, book_stock = 10\<rparr>,
          item_quantity = 7\<rparr>,
         \<lparr>item_book = \<lparr>book_title = ''Atlas'', book_price = 4299, book_stock = 10\<rparr>,
          item_quantity = 1\<rparr>]\<rparr>"

definition big80 :: coupon where
  "big80 =
     \<lparr>coupon_code = ''BIG80'', coupon_discount_type = ''percentage'',
      coupon_discount_value = 80, coupon_max_usage = 100, coupon_current_usage = 0,
      coupon_min_purchase = 0, coupon_expiry_date = 1000, coupon_is_active = True\<rparr>"

definition flat1000 :: coupon where
  "flat1000 =
     \<lparr>coupon_code = ''FLAT1000'', coupon_discount_type = ''fixed'',
      coupon_discount_value = 1000, coupon_max_usage = 100, coupon_current_usage = 0,
      coupon_min_purchase = 500, coupon_expiry_date = 1000, coupon_is_active = True\<rparr>"

definition first_cart :: cart where
  "first_cart =
     \<lparr>cart_customer = \<lparr>customer_is_first_time_buyer = True\<rparr>,
      cart_applied_coupon = Some big80,
      cart_cartitem_set =
        [\<lparr>item_book = \<lparr>book_title = ''Atlas'', book_price = 3000, book_stock = 4\<rparr>,
          item_quantity = 2\<rparr>]\<rparr>"

text \<open>A shop with two books, one customer with a cart of two items (the second of
  quantity \<open>q\<close>, with one copy in stock) and a coupon applied.\<close>

definition shop :: "nat \<Rightarrow> db" where
  "shop q =
     \<lparr>books = [1 \<mapsto> \<lparr>book_title = ''Atlas'', book_price = 300, book_stock = 5\<rparr>,
               2 \<mapsto> \<lparr>book_title = ''Primer'', book_price = 100, book_stock = 1\<rparr>],
      customers = [7 \<mapsto> \<lparr>customer_is_first_time_buyer = True\<rparr>],
      coupons = [(3, flat1000)],
      carts = [7 \<mapsto> \<lparr>cartrow_applied_coupon = Some 3\<rparr>],
      cart_items = [\<lparr>cartitem_cart = 7, cartitem_book = 1, cartitem_quantity = 2\<rparr>,
                    \<lparr>cartitem_cart = 7, cartitem_book = 2, cartitem_quantity = q\<rparr>],
      orders = [], order_items = [], coupon_usages = [], payments = []\<rparr>"








section \<open>Pricing\<close>

lemmas pricing_defs = Cart_subtotal_def CartItem_subtotal_def Cart_total_items_def
  Cart_calculate_shipping_def Cart_shipping_fee_def Cart_coupon_discount_def
  Cart_order_value_discount_def Cart_first_time_discount_def Cart_total_discount_def
  Cart_total_amount_def Coupon_is_valid_def Coupon_calculate_discount_def

lemma single_cart_subtotal: "Cart_subtotal (single_cart p n) = p * of_nat n"
  by (simp add: single_cart_def Cart_subtotal_def CartItem_subtotal_def)

lemma single_cart_total_items: "Cart_total_items (single_cart p n) = n"
  by (simp add: single_cart_def Cart_total_items_def)

lemma Coupon_is_valid_iff:
  "fst (Coupon_is_valid now cp) \<longleftrightarrow>
     coupon_is_active cp \<and> coupon_current_usage cp < coupon_max_usage cp
     \<and> now \<le> coupon_expiry_date cp"
  by (auto simp: Coupon_is_valid_def)

lemma Cart_coupon_discount_unfold:
  "Cart_coupon_discount now c =
     (case cart_applied_coupon c of None \<Rightarrow> 0
      | Some cp \<Rightarrow>
          if fst (Coupon_is_valid now cp) \<and> Cart_subtotal c \<ge> coupon_min_purchase cp
          then Coupon_calculate_discount cp (Cart_subtotal c) else 0)"
  by (simp add: Cart_coupon_discount_def case_prod_beta split: option.splits)

text \<open>
  Claim C4. For every cart, the first-time discount is 15% of the subtotal when the
  customer's first-time flag is set and 0 otherwise; the total discount is the sum of
  the coupon, order-value and first-time discounts; the total amount is subtotal minus
  total discount plus shipping fee, with no floor: it is negative whenever the total
  discount exceeds subtotal plus shipping fee.
\<close>

theorem Cart_total_amount_stacks:
  "Cart_first_time_discount c =
      (if customer_is_first_time_buyer (cart_customer c) then (15 / 100) * Cart_subtotal c
       else 0)
   \<and> Cart_total_discount now c =
      Cart_coupon_discount now c + Cart_order_value_discount c + Cart_first_time_discount c
   \<and> Cart_total_amount now c = Cart_subtotal c - Cart_total_discount now c + Cart_shipping_fee c
   \<and> (Cart_total_discount now c > Cart_subtotal c + Cart_shipping_fee c
        \<longrightarrow> Cart_total_amount now c < 0)"
  by (simp add: Cart_first_time_discount_def Cart_total_discount_def Cart_total_amount_def)

text \<open>A first-time buyer with 6000 in the cart and an 80% coupon: the three discounts
  add up to 6600 and the total is negative.\<close>

theorem Cart_total_amount_stacks_witness:
  "Cart_subtotal first_cart = 6000 \<and> Cart_order_value_discount first_cart = 900
   \<and> Cart_first_time_discount first_cart = 900 \<and> Cart_coupon_discount 10 first_cart = 4800
   \<and> Cart_total_discount 10 first_cart = 6600 \<and> Cart_shipping_fee first_cart = 0
   \<and> Cart_total_amount 10 first_cart = - 600 \<and> Cart_total_amount 10 first_cart < 0"
proof -
  have sub: "Cart_subtotal first_cart = 6000"
    by (simp add: first_cart_def big80_def pricing_defs)
  have cd: "Cart_coupon_discount 10 first_cart = 4800"
    by (simp add: first_cart_def big80_def pricing_defs)
  have ovd: "Cart_order_value_discount first_cart = 900"
    by (simp add: first_cart_def big80_def pricing_defs)
  have sh: "Cart_shipping_fee first_cart = 0"
    by (simp add: first_cart_def big80_def pricing_defs)
  have ft: "customer_is_first_time_buyer (cart_customer first_cart)"
    by (simp add: first_cart_def)
  show ?thesis
    using Cart_total_amount_stacks [of first_cart 10] sub cd ovd sh ft by simp
qed

text \<open>
  Claim C5. The coupon discount of a cart is 0 unless a coupon is applied, the coupon
  passes \<^verbatim>\<open>is_valid\<close> (active, usage below the limit, not expired) and the
  subtotal reaches the coupon's minimum purchase; then a \<^verbatim>\<open>fixed\<close> coupon gives
  the smaller of its value and the subtotal (so never more than the subtotal) and a
  \<^verbatim>\<open>percentage\<close> coupon gives subtotal times value over 100.
\<close>

theorem Cart_coupon_discount_cases:
  "(cart_applied_coupon c = None \<longrightarrow> Cart_coupon_discount now c = 0)
   \<and> (\<forall>cp. cart_applied_coupon c = Some cp \<longrightarrow>
        (fst (Coupon_is_valid now cp) \<longleftrightarrow>
           coupon_is_active cp \<and> coupon_current_usage cp < coupon_max_usage cp
           \<and> now \<le> coupon_expiry_date cp)
      \<and> (\<not> fst (Coupon_is_valid now cp) \<longrightarrow> Cart_coupon_discount now c = 0)
      \<and> (Cart_subtotal c < coupon_min_purchase cp \<longrightarrow> Cart_coupon_discount now c = 0)
      \<and> (fst (Coupon_is_valid now cp) \<and> Cart_subtotal c \<ge> coupon_min_purchase cp \<longrightarrow>
           (coupon_discount_type cp = ''fixed'' \<longrightarrow>
              Cart_coupon_discount now c = min (coupon_discount_value cp) (Cart_subtotal c)
              \<and> Cart_coupon_discount now c \<le> Cart_subtotal c)
         \<and> (coupon_discount_type cp = ''percentage'' \<longrightarrow>
              Cart_coupon_discount now c
                = Cart_subtotal c * coupon_discount_value cp / 100)))"
proof -
  have "fst (Coupon_is_valid now cp) \<longleftrightarrow>
           coupon_is_active cp \<and> coupon_current_usage cp < coupon_max_usage cp
           \<and> now \<le> coupon_expiry_date cp" for cp
    by (rule Coupon_is_valid_iff)
  then show ?thesis
    by (simp add: Cart_coupon_discount_unfold Coupon_calculate_discount_def)
qed

text \<open>A fixed coupon of 1000 on a subtotal of 600 gives 600; the 80% coupon on 600
  gives 480; without a coupon the discount is 0.\<close>

theorem Cart_coupon_discount_cases_witness:
  "Cart_subtotal ((single_cart 300 2)\<lparr>cart_applied_coupon := Some flat1000\<rparr>) = 600
   \<and> fst (Coupon_is_valid 10 flat1000)
   \<and> Cart_coupon_discount 10 ((single_cart 300 2)\<lparr>cart_applied_coupon := Some flat1000\<rparr>) = 600
   \<and> Cart_coupon_discount 10 ((single_cart 300 2)\<lparr>cart_applied_coupon := Some big80\<rparr>) = 480
   \<and> Cart_coupon_discount 2000 ((single_cart 300 2)\<lparr>cart_applied_coupon := Some big80\<rparr>) = 0
   \<and> Cart_coupon_discount 10 ((single_cart 200 2)\<lparr>cart_applied_coupon := Some flat1000\<rparr>) = 0
   \<and> Cart_coupon_discount 10 (single_cart 300 2) = 0"
proof -
  have sub: "Cart_subtotal ((single_cart p n)\<lparr>cart_applied_coupon := x\<rparr>) = p * of_nat n"
    for p n x
    by (simp add: single_cart_def Cart_subtotal_def CartItem_subtotal_def)
  have v1: "fst (Coupon_is_valid 10 flat1000)" and v2: "fst (Coupon_is_valid 10 big80)"
    and v3: "\<not> fst (Coupon_is_valid 2000 big80)"
    by (simp_all add: Coupon_is_valid_def flat1000_def big80_def)
  have f: "coupon_discount_type flat1000 = ''fixed''" "coupon_discount_value flat1000 = 1000"
    "coupon_min_purchase flat1000 = 500"
    by (simp_all add: flat1000_def)
  have b: "coupon_discount_type big80 = ''percentage''" "coupon_discount_value big80 = 80"
    "coupon_min_purchase big80 = 0"
    by (simp_all add: big80_def)
  have n: "cart_applied_coupon (single_cart 300 2) = None"
    by (simp add: single_cart_def)
  show ?thesis
    using Cart_coupon_discount_cases
            [of "(single_cart 300 2)\<lparr>cart_applied_coupon := Some flat1000\<rparr>" 10]
          Cart_coupon_discount_cases
            [of "(single_cart 300 2)\<lparr>cart_applied_coupon := Some big80\<rparr>" 10]
          Cart_coupon_discount_cases
            [of "(single_cart 300 2)\<lparr>cart_applied_coupon := Some big80\<rparr>" 2000]
          Cart_coupon_discount_cases
            [of "(single_cart 200 2)\<lparr>cart_applied_coupon := Some flat1000\<rparr>" 10]
          Cart_coupon_discount_cases [of "single_cart 300 2" 10]
    by (simp add: sub v1 v2 v3 f b n)
qed

text \<open>
  Claim C6. For every subtotal S the order-value discount applies exactly one rate,
  that of the highest threshold met: 15% for S at least 5000, 10% from 2000 up to
  5000, 5% from 1000 up to 2000, nothing below 1000. It is monotonic in S, and it is
  never the sum of several tiers.
\<close>

theorem Cart_order_value_discount_tiers:
  "(Cart_subtotal c \<ge> 5000 \<longrightarrow> Cart_order_value_discount c = Cart_subtotal c * (15 / 100))
   \<and> (2000 \<le> Cart_subtotal c \<and> Cart_subtotal c < 5000 \<longrightarrow>
        Cart_order_value_discount c = Cart_subtotal c * (10 / 100))
   \<and> (1000 \<le> Cart_subtotal c \<and> Cart_subtotal c < 2000 \<longrightarrow>
        Cart_order_value_discount c = Cart_subtotal c * (5 / 100))
   \<and> (Cart_subtotal c < 1000 \<longrightarrow> Cart_order_value_discount c = 0)
   \<and> (Cart_subtotal c \<le> Cart_subtotal c' \<longrightarrow>
        Cart_order_value_discount c \<le> Cart_order_value_discount c')"
  by (simp add: Cart_order_value_discount_def Let_def)

text \<open>The discount on both sides of each breakpoint, and at 5000 (750, not
  750 + 500 + 250).\<close>

theorem Cart_order_value_discount_tiers_witness:
  "Cart_order_value_discount (single_cart (99999 / 100) 1) = 0
   \<and> Cart_order_value_discount (single_cart 1000 1) = 50
   \<and> Cart_order_value_discount (single_cart (199999 / 100) 1) = 199999 / 2000
   \<and> Cart_order_value_discount (single_cart 2000 1) = 200
   \<and> Cart_order_value_discount (single_cart (499999 / 100) 1) = 499999 / 1000
   \<and> Cart_order_value_discount (single_cart 2500 2) = 750
   \<and> Cart_order_value_discount (single_cart 1000 1)
       \<le> Cart_order_value_discount (single_cart 2500 2)"
  using Cart_order_value_discount_tiers [of "single_cart (99999 / 100) 1" "single_cart 1000 1"]
    Cart_order_value_discount_tiers [of "single_cart 1000 1" "single_cart 2500 2"]
    Cart_order_value_discount_tiers [of "single_cart (199999 / 100) 1" "single_cart 2000 1"]
    Cart_order_value_discount_tiers [of "single_cart 2000 1" "single_cart 2500 2"]
    Cart_order_value_discount_tiers [of "single_cart (499999 / 100) 1" "single_cart 2500 2"]
    Cart_order_value_discount_tiers [of "single_cart 2500 2" "single_cart 2500 2"]
  by (simp add: single_cart_subtotal)

text \<open>
  Claim C7. For every cart the shipping fee is 0 when the subtotal is at least 5000;
  otherwise it is the base fee 50 plus, when more than 5 items are in the cart, 10 for
  each item beyond the fifth. Subtotal 5000 gives 0, subtotal 4999 with 5 items gives
  50, subtotal 4999 with 8 items gives 80.
\<close>

theorem Cart_shipping_fee_rule:
  "(Cart_subtotal c \<ge> 5000 \<longrightarrow> Cart_shipping_fee c = 0)
   \<and> (Cart_subtotal c < 5000 \<and> Cart_total_items c \<le> 5 \<longrightarrow> Cart_shipping_fee c = 50)
   \<and> (Cart_subtotal c < 5000 \<and> Cart_total_items c > 5 \<longrightarrow>
        Cart_shipping_fee c = 50 + 10 * (of_nat (Cart_total_items c) - 5))
   \<and> (Cart_subtotal c = 5000 \<longrightarrow> Cart_shipping_fee c = 0)
   \<and> (Cart_subtotal c = 4999 \<and> Cart_total_items c = 5 \<longrightarrow> Cart_shipping_fee c = 50)
   \<and> (Cart_subtotal c = 4999 \<and> Cart_total_items c = 8 \<longrightarrow> Cart_shipping_fee c = 80)"
  by (simp add: Cart_shipping_fee_def Cart_calculate_shipping_def Let_def of_nat_diff)

theorem Cart_shipping_fee_rule_witness:
  "Cart_subtotal (single_cart 1000 5) = 5000 \<and> Cart_shipping_fee (single_cart 1000 5) = 0
   \<and> Cart_subtotal (single_cart (99980 / 100) 5) = 4999
   \<and> Cart_total_items (single_cart (99980 / 100) 5) = 5
   \<and> Cart_shipping_fee (single_cart (99980 / 100) 5) = 50
   \<and> Cart_subtotal eight_cart = 4999 \<and> Cart_total_items eight_cart = 8
   \<and> Cart_shipping_fee eight_cart = 80"
proof -
  have e: "Cart_subtotal eight_cart = 4999" "Cart_total_items eight_cart = 8"
    by (simp_all add: eight_cart_def Cart_subtotal_def CartItem_subtotal_def
          Cart_total_items_def)
  show ?thesis
    using Cart_shipping_fee_rule [of "single_cart 1000 5"]
      Cart_shipping_fee_rule [of "single_cart (99980 / 100) 5"]
      Cart_shipping_fee_rule [of eight_cart]
    by (simp add: single_cart_subtotal single_cart_total_items e)
qed

section \<open>Evaluation of the examples\<close>


section \<open>\<^verbatim>\<open>OrderItem.save\<close>\<close>

lemma foldr_max_ge: "k \<in> set ks \<Longrightarrow> k \<le> foldr max ks (0::nat)"
  by (induction ks) (auto simp: max_def)

lemma fresh_id_notin: "fresh_id tbl \<notin> fst ` set tbl"
proof
  assume "fresh_id tbl \<in> fst ` set tbl"
  then have "fresh_id tbl \<in> set (map fst tbl)" by simp
  then have "fresh_id tbl \<le> foldr max (map fst tbl) 0" by (rule foldr_max_ge)
  then show False by (simp add: fresh_id_def)
qed

lemma map_of_append_fresh: "map_of (tbl @ [(fresh_id tbl, v)]) (fresh_id tbl) = Some v"
proof -
  have "map_of tbl (fresh_id tbl) = None"
    using fresh_id_notin [of tbl] by (simp add: map_of_eq_None_iff)
  then show ?thesis by (simp add: map_add_def)
qed

lemma map_of_append_old:
  "k \<in> fst ` set tbl \<Longrightarrow> map_of (tbl @ [(fresh_id tbl, v)]) k = map_of tbl k"
  by (auto simp: map_add_def map_of_eq_None_iff split: option.splits)

lemma in_set_updateD: "x \<in> set (AList.update k v al) \<Longrightarrow> x = (k, v) \<or> x \<in> set al"
  by (induction al) (auto split: if_splits)

text \<open>
  Claim C9. \<^verbatim>\<open>OrderItem.save\<close> overwrites whatever unit price and subtotal the
  caller supplied: the result does not depend on them. Whenever it persists the item,
  the row has the book's price at that moment as unit price and unit price times
  quantity as subtotal; when it raises, no row is written. So every row of the table
  stays priced.
\<close>

theorem OrderItem_save_invariant:
  "OrderItem_save d pk (self\<lparr>orderitem_unit_price := u, orderitem_subtotal := s\<rparr>)
     = OrderItem_save d pk self
   \<and> (\<forall>d'. OrderItem_save d pk self = (None, d') \<longrightarrow>
        (\<exists>b row. books d (orderitem_book self) = Some b
           \<and> map_of (order_items d')
                (case pk of None \<Rightarrow> fresh_id (order_items d) | Some k \<Rightarrow> k) = Some row
           \<and> row = self\<lparr>orderitem_unit_price := book_price b,
                        orderitem_subtotal := book_price b * of_nat (orderitem_quantity self)\<rparr>
           \<and> orderitem_unit_price row = book_price b
           \<and> orderitem_subtotal row = orderitem_unit_price row * of_nat (orderitem_quantity row)
           \<and> map_option book_price (books d' (orderitem_book self)) = Some (book_price b)))
   \<and> (\<forall>e d'. OrderItem_save d pk self = (Some e, d') \<longrightarrow> order_items d' = order_items d)
   \<and> (\<forall>d' x. fst (OrderItem_save d pk self) = None \<and> d' = snd (OrderItem_save d pk self)
         \<and> (\<forall>y \<in> set (order_items d). priced (snd y)) \<and> x \<in> set (order_items d')
         \<longrightarrow> priced (snd x))"
proof (intro conjI allI impI)
  show "OrderItem_save d pk (self\<lparr>orderitem_unit_price := u, orderitem_subtotal := s\<rparr>)
     = OrderItem_save d pk self"
    by (simp add: OrderItem_save_def Let_def split: option.splits)
next
  fix d' assume ok: "OrderItem_save d pk self = (None, d')"
  then obtain b where b: "books d (orderitem_book self) = Some b"
    by (auto simp: OrderItem_save_def split: option.splits)
  let ?row = "self\<lparr>orderitem_unit_price := book_price b,
                        orderitem_subtotal := book_price b * of_nat (orderitem_quantity self)\<rparr>"
  have "map_of (order_items d')
          (case pk of None \<Rightarrow> fresh_id (order_items d) | Some k \<Rightarrow> k) = Some ?row"
    using ok b
    by (auto simp: OrderItem_save_def Let_def map_of_append_fresh update_conv'
          simp del: map_of_append split: option.splits if_splits)
  moreover have "map_option book_price (books d' (orderitem_book self)) = Some (book_price b)"
    using ok b
    by (auto simp: OrderItem_save_def Let_def split: option.splits if_splits)
  ultimately show "\<exists>b row. books d (orderitem_book self) = Some b
           \<and> map_of (order_items d')
                (case pk of None \<Rightarrow> fresh_id (order_items d) | Some k \<Rightarrow> k) = Some row
           \<and> row = self\<lparr>orderitem_unit_price := book_price b,
                        orderitem_subtotal := book_price b * of_nat (orderitem_quantity self)\<rparr>
           \<and> orderitem_unit_price row = book_price b
           \<and> orderitem_subtotal row = orderitem_unit_price row * of_nat (orderitem_quantity row)
           \<and> map_option book_price (books d' (orderitem_book self)) = Some (book_price b)"
    using b by simp
next
  fix e d' assume "OrderItem_save d pk self = (Some e, d')"
  then show "order_items d' = order_items d"
    by (auto simp: OrderItem_save_def Let_def split: option.splits if_splits)
next
  fix d' x
  assume a: "fst (OrderItem_save d pk self) = None \<and> d' = snd (OrderItem_save d pk self)
         \<and> (\<forall>y \<in> set (order_items d). priced (snd y)) \<and> x \<in> set (order_items d')"
  then show "priced (snd x)"
    by (auto simp: OrderItem_save_def Let_def priced_def
          split: option.splits if_splits dest!: in_set_updateD)
qed

text \<open>Saving a new item of two copies of a book at 300, handed in with unit price 999
  and subtotal 1.\<close>

theorem OrderItem_save_invariant_witness:
  "fst (OrderItem_save (shop 1) None
          \<lparr>orderitem_order = 1, orderitem_book = 1, orderitem_quantity = 2,
           orderitem_unit_price = 999, orderitem_subtotal = 1\<rparr>) = None
   \<and> order_items (snd (OrderItem_save (shop 1) None
          \<lparr>orderitem_order = 1, orderitem_book = 1, orderitem_quantity = 2,
           orderitem_unit_price = 999, orderitem_subtotal = 1\<rparr>))
       = [(1, \<lparr>orderitem_order = 1, orderitem_book = 1, orderitem_quantity = 2,
               orderitem_unit_price = 300, orderitem_subtotal = 600\<rparr>)]
   \<and> OrderItem_save (shop 1) None
          \<lparr>orderitem_order = 1, orderitem_book = 1, orderitem_quantity = 2,
           orderitem_unit_price = 999, orderitem_subtotal = 1\<rparr>
       = OrderItem_save (shop 1) None
          \<lparr>orderitem_order = 1, orderitem_book = 1, orderitem_quantity = 2,
           orderitem_unit_price = 300, orderitem_subtotal = 600\<rparr>"
proof -
  let ?it = "\<lparr>orderitem_order = 1, orderitem_book = 1, orderitem_quantity = 2,
           orderitem_unit_price = 300, orderitem_subtotal = 600\<rparr>"
  have ok: "fst (OrderItem_save (shop 1) None ?it) = None"
    by (simp add: OrderItem_save_def shop_def Let_def)
  have rows: "order_items (snd (OrderItem_save (shop 1) None ?it)) = [(1, ?it)]"
    by (simp add: OrderItem_save_def shop_def Let_def fresh_id_def)
  show ?thesis
    using OrderItem_save_invariant [where d = "shop 1" and pk = None and self = ?it
            and u = 999 and s = 1] ok rows by simp
qed

section \<open>Card payment\<close>

lemma validate_card_number_iff:
  "fst (validate_card_number t) \<longleftrightarrow>
     isdigit (filter (\<lambda>c. c \<noteq> CHR '' '') t)
     \<and> 13 \<le> length (filter (\<lambda>c. c \<noteq> CHR '' '') t)
     \<and> length (filter (\<lambda>c. c \<noteq> CHR '' '') t) \<le> 19
     \<and> luhn_check (filter (\<lambda>c. c \<noteq> CHR '' '') t)"
  by (auto simp: validate_card_number_def Let_def)

lemma validate_cvv_iff:
  "fst (validate_cvv t) \<longleftrightarrow> isdigit t \<and> (length t = 3 \<or> length t = 4)"
  by (auto simp: validate_cvv_def)

lemma validate_expiry_date_iff:
  "fst (validate_expiry_date clk m y) \<longleftrightarrow>
     (\<exists>month year. py_int m = Some month \<and> py_int y = Some year
        \<and> 1 \<le> month \<and> month \<le> 12
        \<and> (let year' = (if year < 100 then (clock_year clk div 100) * 100 + year else year)
           in year' > clock_year clk \<or> (year' = clock_year clk \<and> month \<ge> clock_month clk)))"
proof (cases "py_int m")
  case None
  then show ?thesis by (simp add: validate_expiry_date_def)
next
  case m: (Some month)
  show ?thesis
  proof (cases "py_int y")
    case None
    then show ?thesis using m by (simp add: validate_expiry_date_def)
  next
    case y: (Some year)
    define year' where "year' = (if year < 100 then (clock_year clk div 100) * 100 + year else year)"
    have "fst (validate_expiry_date clk m y) \<longleftrightarrow>
        1 \<le> month \<and> month \<le> 12 \<and> \<not> year' < clock_year clk
         \<and> \<not> (year' = clock_year clk \<and> month < clock_month clk)"
      using m y unfolding validate_expiry_date_def year'_def Let_def by simp
    also have "\<dots> \<longleftrightarrow> 1 \<le> month \<and> month \<le> 12
        \<and> (year' > clock_year clk \<or> (year' = clock_year clk \<and> month \<ge> clock_month clk))"
      by linarith
    finally show ?thesis using m y unfolding year'_def Let_def by simp
  qed
qed






section \<open>Applying a coupon\<close>














section \<open>The loop over the cart items\<close>

lemma reserved_quantity_simps [simp]:
  "reserved_quantity [] b = 0"
  "reserved_quantity (r # rs) b =
     (if cartitem_book r = b then cartitem_quantity r else 0) + reserved_quantity rs b"
  by (simp_all add: reserved_quantity_def)

lemma reserved_quantity_append [simp]:
  "reserved_quantity (xs @ ys) b = reserved_quantity xs b + reserved_quantity ys b"
  by (simp add: reserved_quantity_def)






text \<open>The rows written for the order carry the quantities of the cart rows.\<close>

lemma ordered_quantity_append:
  "ordered_quantity (d\<lparr>order_items := order_items d @ [(k, it)]\<rparr>) oid b
     = ordered_quantity d oid b
       + (if orderitem_order it = oid \<and> orderitem_book it = b then orderitem_quantity it else 0)"
  by (simp add: ordered_quantity_def)

lemma ordered_quantity_books [simp]:
  "ordered_quantity (d\<lparr>books := x\<rparr>) oid b = ordered_quantity d oid b"
  by (simp add: ordered_quantity_def)



section \<open>Settlement when stock runs out\<close>







lemma ordered_quantity_orders [simp]:
  "ordered_quantity (d\<lparr>orders := x\<rparr>) oid b = ordered_quantity d oid b"
  by (simp add: ordered_quantity_def)








section \<open>The outcomes of creating an order\<close>



lemma flag_stage_frame [simp]:
  "books (flag_stage d cust cart) = books d" "coupons (flag_stage d cust cart) = coupons d"
  "carts (flag_stage d cust cart) = carts d" "cart_items (flag_stage d cust cart) = cart_items d"
  "orders (flag_stage d cust cart) = orders d"
  "order_items (flag_stage d cust cart) = order_items d"
  "coupon_usages (flag_stage d cust cart) = coupon_usages d"
  "payments (flag_stage d cust cart) = payments d"
  by (simp_all add: flag_stage_def)

lemma clear_stage_frame [simp]:
  "books (clear_stage d cust cr) = books d" "coupons (clear_stage d cust cr) = coupons d"
  "customers (clear_stage d cust cr) = customers d" "orders (clear_stage d cust cr) = orders d"
  "order_items (clear_stage d cust cr) = order_items d"
  "coupon_usages (clear_stage d cust cr) = coupon_usages d"
  "payments (clear_stage d cust cr) = payments d"
  "carts (clear_stage d cust cr) cust = Some (cr\<lparr>cartrow_applied_coupon := None\<rparr>)"
  "cartitem_set (clear_stage d cust cr) cust = []"
  by (simp_all add: clear_stage_def cartitem_set_def)

lemma update_order_status_frame [simp]:
  "books (update_order_status d p) = books d" "coupons (update_order_status d p) = coupons d"
  "customers (update_order_status d p) = customers d" "carts (update_order_status d p) = carts d"
  "cart_items (update_order_status d p) = cart_items d"
  "order_items (update_order_status d p) = order_items d"
  "coupon_usages (update_order_status d p) = coupon_usages d"
  "payments (update_order_status d p) = payments d"
  by (simp_all add: update_order_status_def split: option.splits)











section \<open>Coupon usage in settlement\<close>













end
